theory Spec2Isabelle
  imports Main "HOL-Library.Sublist"
begin

section \<open>The specification pattern of open_closed_principle.py\<close>

text \<open>
  The development embeds the composable predicates and the filter of
  \<^verbatim>\<open>Solid Principles/open_closed_principle.py\<close>. Items are Python objects, so
  they are references into a store of objects; a predicate reads the attributes of the
  object behind a reference. Every operation takes the store and returns it, so that
  what an operation leaves unchanged is a theorem and not a convention.
\<close>

subsection \<open>Values and objects\<close>

text \<open>
  \<^verbatim>\<open>class Color(Enum): RED = 1; GREEN = 2; BLUE = 3\<close> and
  \<^verbatim>\<open>class Size(Enum): SMALL = 1; MEDIUM = 2; LARGE = 3\<close>.
  Members of an \<^verbatim>\<open>Enum\<close> are singletons compared by identity, so two members
  are equal exactly when they are the same constructor; a member of \<^verbatim>\<open>Color\<close>
  never equals a member of \<^verbatim>\<open>Size\<close>, although both carry the number 1.
\<close>

datatype Color = RED | GREEN | BLUE

datatype Size = SMALL | MEDIUM | LARGE

text \<open>
  The values the program stores in attributes: a string (the name), a colour, a size.
  Python's \<^verbatim>\<open>==\<close> on these is equality of the datatype.
\<close>

datatype val = Str string | ColorVal Color | SizeVal Size

type_synonym ref = nat

text \<open>
  An object of the store is an instance with its attribute dictionary, or a list of
  references (the collection handed to the filter).
\<close>

datatype obj = Instance "string \<rightharpoonup> val" | PyList "ref list"

type_synonym heap = "ref \<Rightarrow> obj"

text \<open>The exceptions the modelled code can raise.\<close>

datatype error = NotImplementedError | AttributeError | TypeError

text \<open>A computation: from a store to a raised error or a value, and the store after it.\<close>

type_synonym 'a py = "heap \<Rightarrow> (error + 'a) \<times> heap"

text \<open>
  \<^verbatim>\<open>Product(name, color, size)\<close>: \<^verbatim>\<open>__init__\<close> stores the three arguments
  under the attributes name, color and size.
\<close>

definition Product :: "val \<Rightarrow> val \<Rightarrow> val \<Rightarrow> obj" where
  "Product name color size' =
     Instance (Map.empty(''name'' \<mapsto> name, ''color'' \<mapsto> color, ''size'' \<mapsto> size'))"

text \<open>
  The attributes of an object that hold values: the dictionary of an instance; a list
  object has none (it has neither a \<^verbatim>\<open>color\<close> nor a \<^verbatim>\<open>size\<close>, the
  only names the predicates read).
\<close>

fun attributes :: "obj \<Rightarrow> string \<rightharpoonup> val" where
  "attributes (Instance d) = d"
| "attributes (PyList xs) = Map.empty"

text \<open>
  The attribute read \<^verbatim>\<open>item.attr\<close>: the value stored under the name, and
  \<^verbatim>\<open>AttributeError\<close> when the object has no such attribute.
\<close>

definition getattr :: "ref \<Rightarrow> string \<Rightarrow> val py" where
  "getattr item attr h =
     (case attributes (h item) attr of
        None \<Rightarrow> (Inl AttributeError, h)
      | Some v \<Rightarrow> (Inr v, h))"

subsection \<open>Specifications\<close>

text \<open>
  The class hierarchy: the base class \<^verbatim>\<open>Specification\<close>, the two attribute
  predicates, each holding its target value, and \<^verbatim>\<open>AndSpecification\<close>, whose
  \<^verbatim>\<open>__init__(self, *specifications)\<close> keeps the tuple of its arguments.
\<close>

datatype spec =
    Specification
  | ColorSpecification val
  | SizeSpecification val
  | AndSpecification "spec list"

text \<open>
  \<^verbatim>\<open>is_satisfied\<close>, by class:
  \<^item> \<^verbatim>\<open>Specification\<close>: \<^verbatim>\<open>raise NotImplementedError(...)\<close>;
  \<^item> \<^verbatim>\<open>ColorSpecification\<close>: \<^verbatim>\<open>return item.color == self.color\<close>;
  \<^item> \<^verbatim>\<open>SizeSpecification\<close>: \<^verbatim>\<open>return item.size == self.size\<close>;
  \<^item> \<^verbatim>\<open>AndSpecification\<close>:
    \<^verbatim>\<open>return all(spec.is_satisfied(item) for spec in self.specifications)\<close>.

  \<open>all_satisfied\<close> is the built-in \<^verbatim>\<open>all\<close> over the generator expression: it
  evaluates the children from left to right, returns \<^verbatim>\<open>False\<close> at the first one
  that is false, \<^verbatim>\<open>True\<close> when none is left, and an error raised by a child
  leaves through it.
\<close>

fun is_satisfied :: "spec \<Rightarrow> ref \<Rightarrow> bool py"
  and all_satisfied :: "spec list \<Rightarrow> ref \<Rightarrow> bool py" where
  "is_satisfied Specification item h = (Inl NotImplementedError, h)"
| "is_satisfied (ColorSpecification color) item h =
     (case getattr item ''color'' h of
        (Inl e, h') \<Rightarrow> (Inl e, h')
      | (Inr v, h') \<Rightarrow> (Inr (v = color), h'))"
| "is_satisfied (SizeSpecification size') item h =
     (case getattr item ''size'' h of
        (Inl e, h') \<Rightarrow> (Inl e, h')
      | (Inr v, h') \<Rightarrow> (Inr (v = size'), h'))"
| "is_satisfied (AndSpecification specifications) item h =
     all_satisfied specifications item h"
| "all_satisfied [] item h = (Inr True, h)"
| "all_satisfied (spec # specs) item h =
     (case is_satisfied spec item h of
        (Inl e, h') \<Rightarrow> (Inl e, h')
      | (Inr b, h') \<Rightarrow> (if b then all_satisfied specs item h' else (Inr False, h')))"

text \<open>
  \<^verbatim>\<open>Specification.__and__(self, other)\<close>:
  \<^verbatim>\<open>return AndSpecification(self, other)\<close>.
\<close>

definition spec_and :: "spec \<Rightarrow> spec \<Rightarrow> spec" where
  "spec_and self other = AndSpecification [self, other]"

text \<open>
  The constructor call \<^verbatim>\<open>AndSpecification(*specifications)\<close> as a computation:
  \<^verbatim>\<open>__init__\<close> stores the tuple and has no check that could raise.
\<close>

definition AndSpecification_init :: "spec list \<Rightarrow> error + spec" where
  "AndSpecification_init specifications = Inr (AndSpecification specifications)"

text \<open>
  Python's \<^verbatim>\<open>p and q\<close> on two computations of truth values: \<open>q\<close> is evaluated
  only when \<open>p\<close> returned \<^verbatim>\<open>True\<close>. This is the right-hand side of the
  documented contract of the combination operator, not code of the repository.
\<close>

definition py_and :: "bool py \<Rightarrow> bool py \<Rightarrow> bool py" where
  "py_and p q h =
     (case p h of
        (Inl e, h') \<Rightarrow> (Inl e, h')
      | (Inr b, h') \<Rightarrow> (if b then q h' else (Inr False, h')))"

subsection \<open>The filter\<close>

text \<open>
  \<^verbatim>\<open>ProductFilter.filter(self, items, spec)\<close> is a generator:
  \<^verbatim>\<open>
  for item in items:
      if spec.is_satisfied(item):
          yield item
  \<close>
  \<open>filter_loop\<close> is the loop run to its end over the references the collection
  holds: the items yielded, in the order of yielding, and the error that ended the
  traversal, if one did. An error in \<^verbatim>\<open>is_satisfied\<close> leaves the generator after
  the items yielded before it.
\<close>

fun filter_loop :: "ref list \<Rightarrow> spec \<Rightarrow> heap \<Rightarrow> (ref list \<times> error option) \<times> heap" where
  "filter_loop [] spec h = (([], None), h)"
| "filter_loop (item # items) spec h =
     (case is_satisfied spec item h of
        (Inl e, h') \<Rightarrow> (([], Some e), h')
      | (Inr b, h') \<Rightarrow>
          (case filter_loop items spec h' of
             ((ys, r), h'') \<Rightarrow> ((if b then item # ys else ys, r), h'')))"

text \<open>
  The call on a collection of the store. Iterating over an instance, which has no
  \<^verbatim>\<open>__iter__\<close>, raises \<^verbatim>\<open>TypeError\<close> before any item is yielded.
\<close>

definition ProductFilter_filter ::
    "ref \<Rightarrow> spec \<Rightarrow> heap \<Rightarrow> (ref list \<times> error option) \<times> heap" where
  "ProductFilter_filter items spec h =
     (case h items of
        PyList xs \<Rightarrow> filter_loop xs spec h
      | Instance d \<Rightarrow> (([], Some TypeError), h))"

text \<open>The items a traversal yielded.\<close>

definition yielded :: "(ref list \<times> error option) \<times> heap \<Rightarrow> ref list" where
  "yielded out = fst (fst out)"

subsection \<open>The demonstration\<close>

text \<open>
  The objects of the \<^verbatim>\<open>__main__\<close> block:
  \<^verbatim>\<open>apple = Product("Apple", Color.RED, Size.SMALL)\<close>,
  \<^verbatim>\<open>tree = Product("Tree", Color.GREEN, Size.LARGE)\<close>,
  \<^verbatim>\<open>room = Product("Room", Color.BLUE, Size.LARGE)\<close> and
  \<^verbatim>\<open>products = [apple, tree, room]\<close>.
\<close>

definition apple :: ref where "apple = 0"
definition tree :: ref where "tree = 1"
definition room :: ref where "room = 2"
definition products :: ref where "products = 3"

definition demo_heap :: heap where
  "demo_heap =
     (\<lambda>r. Instance Map.empty)
       (apple := Product (Str ''Apple'') (ColorVal RED) (SizeVal SMALL),
        tree := Product (Str ''Tree'') (ColorVal GREEN) (SizeVal LARGE),
        room := Product (Str ''Room'') (ColorVal BLUE) (SizeVal LARGE),
        products := PyList [apple, tree, room])"

text \<open>
  \<^verbatim>\<open>large_spec = SizeSpecification(Size.LARGE)\<close> and
  \<^verbatim>\<open>large_blue_spec = large_spec & ColorSpecification(Color.BLUE)\<close>.
\<close>

definition large_spec :: spec where
  "large_spec = SizeSpecification (SizeVal LARGE)"

definition large_blue_spec :: spec where
  "large_blue_spec = spec_and large_spec (ColorSpecification (ColorVal BLUE))"

text \<open>
  An object with a name and nothing else, at reference 0 of an otherwise empty store.
\<close>

definition nameless_heap :: heap where
  "nameless_heap =
     (\<lambda>r. Instance Map.empty)(0 := Instance (Map.empty(''name'' \<mapsto> Str ''Box'')))"

text \<open>The store of the demonstration with a collection that holds the tree and the room.\<close>

definition large_heap :: heap where
  "large_heap = demo_heap(products := PyList [tree, room])"

section \<open>Properties\<close>

lemmas demo_defs =
  ProductFilter_filter_def demo_heap_def large_heap_def nameless_heap_def large_blue_spec_def
  large_spec_def spec_and_def getattr_def Product_def apple_def tree_def room_def products_def
  yielded_def

subsection \<open>Evaluation leaves the store as it was\<close>

lemma getattr_heap: "snd (getattr item attr h) = h"
  by (simp add: getattr_def split: option.split)

lemma is_satisfied_heap: "snd (is_satisfied s item h) = h"
  and all_satisfied_heap: "snd (all_satisfied ss item h) = h"
proof (induction s item h and ss item h rule: is_satisfied_all_satisfied.induct)
  case (2 color item h)
  then show ?case
    using getattr_heap [of item "''color''" h]
    by (auto split: prod.split sum.split)
next
  case (3 size' item h)
  then show ?case
    using getattr_heap [of item "''size''" h]
    by (auto split: prod.split sum.split)
next
  case (6 spec specs item h)
  then show ?case
    by (auto split: prod.split sum.split)
qed simp_all

lemma is_satisfied_returns:
  assumes "fst (is_satisfied s x h) = r"
  shows "is_satisfied s x h = (r, h)"
  using assms is_satisfied_heap [of s x h] by (metis prod.collapse)

lemma filter_loop_heap: "snd (filter_loop xs s h) = h"
proof (induction xs)
  case Nil
  show ?case by simp
next
  case (Cons x xs)
  show ?case
    using is_satisfied_heap [of s x h] Cons.IH
    by (auto split: prod.split sum.split)
qed

subsection \<open>The traversal\<close>

text \<open>
  When no evaluation raises, the traversal yields the items that satisfy the predicate,
  in the order of the collection, and ends without an error.
\<close>

lemma filter_loop_no_raise:
  assumes "\<forall>x\<in>set xs. \<exists>b. fst (is_satisfied s x h) = Inr b"
  shows "filter_loop xs s h =
           ((filter (\<lambda>x. fst (is_satisfied s x h) = Inr True) xs, None), h)"
  using assms
proof (induction xs)
  case Nil
  show ?case by simp
next
  case (Cons x xs)
  from Cons.prems obtain b where "fst (is_satisfied s x h) = Inr b" by auto
  then have e: "is_satisfied s x h = (Inr b, h)" by (rule is_satisfied_returns)
  from Cons have
    "filter_loop xs s h = ((filter (\<lambda>x. fst (is_satisfied s x h) = Inr True) xs, None), h)"
    by simp
  with e show ?case by simp
qed

text \<open>
  The first item whose evaluation raises ends the traversal with that error, after the
  satisfying items before it; no item behind it is looked at.
\<close>

lemma filter_loop_first_error:
  assumes "\<forall>y\<in>set pre. \<exists>b. fst (is_satisfied s y h) = Inr b"
    and "fst (is_satisfied s x h) = Inl e"
  shows "filter_loop (pre @ x # post) s h =
           ((filter (\<lambda>y. fst (is_satisfied s y h) = Inr True) pre, Some e), h)"
  using assms(1)
proof (induction pre)
  case Nil
  from assms(2) have "is_satisfied s x h = (Inl e, h)" by (rule is_satisfied_returns)
  then show ?case by simp
next
  case (Cons y pre)
  from Cons.prems obtain b where "fst (is_satisfied s y h) = Inr b" by auto
  then have e: "is_satisfied s y h = (Inr b, h)" by (rule is_satisfied_returns)
  from Cons have
    "filter_loop (pre @ x # post) s h =
       ((filter (\<lambda>y. fst (is_satisfied s y h) = Inr True) pre, Some e), h)"
    by simp
  with e show ?case by simp
qed

lemma filter_loop_subseq: "subseq (fst (fst (filter_loop xs s h))) xs"
proof (induction xs)
  case Nil
  show ?case by simp
next
  case (Cons x xs)
  then show ?case
    using is_satisfied_heap [of s x h]
    by (auto split: prod.split sum.split)
qed

text \<open>
  A conjunction is false at its first false child, whatever stands behind that child.
\<close>

lemma all_satisfied_prefix:
  assumes "\<forall>q\<in>set pre. \<exists>b. fst (is_satisfied q x h) = Inr b"
    and "fst (is_satisfied p x h) = Inr False"
  shows "all_satisfied (pre @ p # post) x h = (Inr False, h)"
  using assms(1)
proof (induction pre)
  case Nil
  from assms(2) have "is_satisfied p x h = (Inr False, h)" by (rule is_satisfied_returns)
  then show ?case by simp
next
  case (Cons q pre)
  from Cons.prems obtain b where "fst (is_satisfied q x h) = Inr b" by auto
  then have e: "is_satisfied q x h = (Inr b, h)" by (rule is_satisfied_returns)
  from Cons have "all_satisfied (pre @ p # post) x h = (Inr False, h)" by simp
  with e show ?case by simp
qed

text \<open>
  A child that raises behind children that hold ends the conjunction with its error:
  the order of the children is the order of evaluation.
\<close>

lemma all_satisfied_first_error:
  assumes "\<forall>q\<in>set pre. fst (is_satisfied q x h) = Inr True"
    and "fst (is_satisfied p x h) = Inl e"
  shows "all_satisfied (pre @ p # post) x h = (Inl e, h)"
  using assms(1)
proof (induction pre)
  case Nil
  from assms(2) have "is_satisfied p x h = (Inl e, h)" by (rule is_satisfied_returns)
  then show ?case by simp
next
  case (Cons q pre)
  from Cons.prems have "fst (is_satisfied q x h) = Inr True" by simp
  then have t: "is_satisfied q x h = (Inr True, h)" by (rule is_satisfied_returns)
  from Cons have "all_satisfied (pre @ p # post) x h = (Inl e, h)" by simp
  with t show ?case by simp
qed

text \<open>
  An attribute predicate on an item that carries the attribute compares the stored value
  with the target.
\<close>

lemma color_satisfied:
  "attributes (h x) ''color'' = Some u \<Longrightarrow>
     is_satisfied (ColorSpecification v) x h = (Inr (u = v), h)"
  by (simp add: getattr_def)

lemma size_satisfied:
  "attributes (h x) ''size'' = Some u \<Longrightarrow>
     is_satisfied (SizeSpecification v) x h = (Inr (u = v), h)"
  by (simp add: getattr_def)

lemma attribute_satisfied:
  assumes "(P, a) = (ColorSpecification v, ''color'') \<or> (P, a) = (SizeSpecification v, ''size'')"
    and "attributes (h x) a = Some u"
  shows "is_satisfied P x h = (Inr (u = v), h)"
  using assms(1)
proof
  assume "(P, a) = (ColorSpecification v, ''color'')"
  then have "P = ColorSpecification v" "a = ''color''" by simp_all
  with assms(2) show ?thesis by (simp only: color_satisfied)
next
  assume "(P, a) = (SizeSpecification v, ''size'')"
  then have "P = SizeSpecification v" "a = ''size''" by simp_all
  with assms(2) show ?thesis by (simp only: size_satisfied)
qed

subsection \<open>Conjunction\<close>

text \<open>
  C1. For every item and every pair of predicates A and B, the predicate built by the
  combination operator evaluates as Python's \<^verbatim>\<open>A.is_satisfied(x) and
  B.is_satisfied(x)\<close> does: the same truth value, or the same error, and the same store.
\<close>

theorem and_is_conjunction:
  "is_satisfied (spec_and A B) x h = py_and (is_satisfied A x) (is_satisfied B x) h"
  by (simp add: spec_and_def py_and_def split: prod.split sum.split)

text \<open>
  C3. Chained combination associates: for all predicates A, B, C and every item,
  \<^verbatim>\<open>(A & B) & C\<close> and \<^verbatim>\<open>A & (B & C)\<close> evaluate to the same result, also
  when an evaluation raises.
\<close>

theorem and_associates:
  "is_satisfied (spec_and (spec_and A B) C) x h =
   is_satisfied (spec_and A (spec_and B C)) x h"
  by (simp add: spec_and_def split: prod.split sum.split)

text \<open>
  C5. A conjunction evaluates its children from left to right and stops at the first
  false one: when the children before a child return and that child is false, the
  conjunction is false without raising, whatever the children behind it are, also when
  evaluating one of them would raise.
\<close>

theorem and_short_circuit:
  assumes "\<forall>q\<in>set pre. \<exists>b. fst (is_satisfied q x h) = Inr b"
    and "fst (is_satisfied p x h) = Inr False"
  shows "is_satisfied (AndSpecification (pre @ p # post)) x h = (Inr False, h)"
  using assms by (simp add: all_satisfied_prefix)

text \<open>
  On the tree (green, large): large holds, blue fails, and the base class predicate
  behind them, which raises when evaluated, is never reached.
\<close>

theorem and_short_circuit_witness:
  "is_satisfied Specification tree demo_heap = (Inl NotImplementedError, demo_heap)
   \<and> is_satisfied
        (AndSpecification [large_spec, ColorSpecification (ColorVal BLUE), Specification])
        tree demo_heap = (Inr False, demo_heap)"
  using and_short_circuit [of "[large_spec]" tree demo_heap
      "ColorSpecification (ColorVal BLUE)" "[Specification]"]
  by (simp add: demo_defs)

text \<open>
  C6. A conjunction constructed with no child is accepted by the constructor and is
  satisfied by every item.
\<close>

theorem empty_and_satisfied:
  "AndSpecification_init [] = Inr (AndSpecification [])
   \<and> is_satisfied (AndSpecification []) x h = (Inr True, h)"
  by (simp add: AndSpecification_init_def)

text \<open>
  C10. For predicates A and B whose evaluations on an item both return, combination
  commutes in its result: \<^verbatim>\<open>A & B\<close> and \<^verbatim>\<open>B & A\<close> evaluate alike, although
  for different A and B the two conjunctions are different predicates.
\<close>

theorem and_commutes:
  assumes "fst (is_satisfied A x h) = Inr a" and "fst (is_satisfied B x h) = Inr b"
  shows "is_satisfied (spec_and A B) x h = is_satisfied (spec_and B A) x h
       \<and> (A \<noteq> B \<longrightarrow> spec_and A B \<noteq> spec_and B A)"
proof -
  from assms(1) have A: "is_satisfied A x h = (Inr a, h)" by (rule is_satisfied_returns)
  from assms(2) have B: "is_satisfied B x h = (Inr b, h)" by (rule is_satisfied_returns)
  from A B show ?thesis by (auto simp: spec_and_def)
qed

theorem and_commutes_witness:
  "is_satisfied (spec_and large_spec (ColorSpecification (ColorVal BLUE))) tree demo_heap
     = (Inr False, demo_heap)
   \<and> is_satisfied (spec_and (ColorSpecification (ColorVal BLUE)) large_spec) tree demo_heap
     = (Inr False, demo_heap)
   \<and> spec_and large_spec (ColorSpecification (ColorVal BLUE))
     \<noteq> spec_and (ColorSpecification (ColorVal BLUE)) large_spec"
  using and_commutes [of large_spec tree demo_heap True
      "ColorSpecification (ColorVal BLUE)" False]
  by (simp add: demo_defs)

subsection \<open>Attribute predicates\<close>

text \<open>
  C4. Evaluating an attribute predicate on an item that lacks the attribute it reads
  raises \<^verbatim>\<open>AttributeError\<close> to the caller: the result is the error, never a truth
  value.
\<close>

theorem missing_attribute_raises:
  "(attributes (h x) ''color'' = None \<longrightarrow>
      is_satisfied (ColorSpecification v) x h = (Inl AttributeError, h))
   \<and> (attributes (h x) ''size'' = None \<longrightarrow>
      is_satisfied (SizeSpecification v) x h = (Inl AttributeError, h))"
  by (simp add: getattr_def)

theorem missing_attribute_raises_witness:
  "attributes (nameless_heap 0) ''color'' = None
   \<and> attributes (nameless_heap 0) ''size'' = None
   \<and> is_satisfied (ColorSpecification (ColorVal RED)) 0 nameless_heap
       = (Inl AttributeError, nameless_heap)
   \<and> is_satisfied (SizeSpecification (SizeVal LARGE)) 0 nameless_heap
       = (Inl AttributeError, nameless_heap)"
  using missing_attribute_raises [of nameless_heap 0 "ColorVal RED"]
    missing_attribute_raises [of nameless_heap 0 "SizeVal LARGE"]
  by (simp add: nameless_heap_def)

subsection \<open>Filtering\<close>

text \<open>
  C2. For every collection C and every predicate P whose evaluation returns on each item
  of C, the traversal of \<^verbatim>\<open>filter(C, P)\<close> yields exactly the items of C that
  satisfy P, in the order and with the multiplicity they have in C, all of them, and
  ends without an error.
\<close>

theorem filter_exact:
  assumes "h c = PyList C"
    and "\<forall>x\<in>set C. \<exists>b. fst (is_satisfied P x h) = Inr b"
  shows "ProductFilter_filter c P h =
           ((filter (\<lambda>x. fst (is_satisfied P x h) = Inr True) C, None), h)"
  using assms by (simp add: ProductFilter_filter_def filter_loop_no_raise)

theorem filter_exact_witness:
  "ProductFilter_filter products large_spec demo_heap =
     ((filter (\<lambda>x. fst (is_satisfied large_spec x demo_heap) = Inr True) [apple, tree, room],
       None), demo_heap)
   \<and> filter (\<lambda>x. fst (is_satisfied large_spec x demo_heap) = Inr True) [apple, tree, room]
       = [tree, room]"
  using filter_exact [of demo_heap products "[apple, tree, room]" large_spec]
  by (simp add: demo_defs)

text \<open>
  C7. On the collection of the demonstration, apple (red, small), tree (green, large)
  and room (blue, large): filtering by large and blue yields the room alone, and
  filtering by red and large yields nothing.
\<close>

theorem demo_filters:
  "ProductFilter_filter products large_blue_spec demo_heap = (([room], None), demo_heap)
   \<and> demo_heap room = Product (Str ''Room'') (ColorVal BLUE) (SizeVal LARGE)
   \<and> ProductFilter_filter products
        (spec_and (ColorSpecification (ColorVal RED)) (SizeSpecification (SizeVal LARGE)))
        demo_heap = (([], None), demo_heap)"
  by (simp add: demo_defs)

text \<open>
  C8. For every collection C and every attribute predicate (on the colour or on the
  size): when each item of C carries the attribute with a value other than the target,
  the filter yields nothing; when each item of C carries the target value, the filter
  yields C.
\<close>

theorem atomic_none_all:
  assumes "h c = PyList C"
    and "(P, a) = (ColorSpecification v, ''color'') \<or> (P, a) = (SizeSpecification v, ''size'')"
  shows "((\<forall>x\<in>set C. \<exists>u. attributes (h x) a = Some u \<and> u \<noteq> v) \<longrightarrow>
            ProductFilter_filter c P h = (([], None), h))
       \<and> ((\<forall>x\<in>set C. attributes (h x) a = Some v) \<longrightarrow>
            ProductFilter_filter c P h = ((C, None), h))"
proof (intro conjI impI)
  assume none: "\<forall>x\<in>set C. \<exists>u. attributes (h x) a = Some u \<and> u \<noteq> v"
  have sat: "is_satisfied P x h = (Inr False, h)" if "x \<in> set C" for x
  proof -
    from none that obtain u where "attributes (h x) a = Some u" and "u \<noteq> v" by blast
    with attribute_satisfied [OF assms(2), of h x u] show ?thesis by simp
  qed
  have "\<forall>x\<in>set C. \<exists>b. fst (is_satisfied P x h) = Inr b"
  proof
    fix x
    assume "x \<in> set C"
    then have "fst (is_satisfied P x h) = Inr False" by (simp add: sat)
    then show "\<exists>b. fst (is_satisfied P x h) = Inr b" ..
  qed
  then have
    "filter_loop C P h = ((filter (\<lambda>x. fst (is_satisfied P x h) = Inr True) C, None), h)"
    by (rule filter_loop_no_raise)
  also have "filter (\<lambda>x. fst (is_satisfied P x h) = Inr True) C = []"
    using sat by (simp add: filter_empty_conv)
  finally show "ProductFilter_filter c P h = (([], None), h)"
    using assms(1) by (simp add: ProductFilter_filter_def)
next
  assume every: "\<forall>x\<in>set C. attributes (h x) a = Some v"
  have sat: "is_satisfied P x h = (Inr True, h)" if "x \<in> set C" for x
  proof -
    from every that have "attributes (h x) a = Some v" by blast
    with attribute_satisfied [OF assms(2), of h x v] show ?thesis by simp
  qed
  have "\<forall>x\<in>set C. \<exists>b. fst (is_satisfied P x h) = Inr b"
  proof
    fix x
    assume "x \<in> set C"
    then have "fst (is_satisfied P x h) = Inr True" by (simp add: sat)
    then show "\<exists>b. fst (is_satisfied P x h) = Inr b" ..
  qed
  then have
    "filter_loop C P h = ((filter (\<lambda>x. fst (is_satisfied P x h) = Inr True) C, None), h)"
    by (rule filter_loop_no_raise)
  also have "filter (\<lambda>x. fst (is_satisfied P x h) = Inr True) C = C"
    using sat by (simp add: filter_id_conv)
  finally show "ProductFilter_filter c P h = ((C, None), h)"
    using assms(1) by (simp add: ProductFilter_filter_def)
qed

text \<open>
  On the collection of the tree and the room: no item is red, every item is large.
\<close>

theorem atomic_none_all_witness:
  "ProductFilter_filter products (ColorSpecification (ColorVal RED)) large_heap
     = (([], None), large_heap)
   \<and> ProductFilter_filter products (SizeSpecification (SizeVal LARGE)) large_heap
     = (([tree, room], None), large_heap)"
  using atomic_none_all [of large_heap products "[tree, room]"
      "ColorSpecification (ColorVal RED)" "''color''" "ColorVal RED"]
    atomic_none_all [of large_heap products "[tree, room]"
      "SizeSpecification (SizeVal LARGE)" "''size''" "SizeVal LARGE"]
  by (simp add: demo_defs)

text \<open>
  C9. For every collection and predicate, the filter leaves the store as it was, so the
  collection and each object in it are unchanged, and the items it yields are references
  the collection holds, in the collection's order: no object is copied.
\<close>

theorem filter_frame:
  "snd (ProductFilter_filter c P h) = h
   \<and> (\<forall>C. h c = PyList C \<longrightarrow>
         subseq (yielded (ProductFilter_filter c P h)) C
       \<and> set (yielded (ProductFilter_filter c P h)) \<subseteq> set C)"
proof -
  have "snd (ProductFilter_filter c P h) = h"
    by (simp add: ProductFilter_filter_def filter_loop_heap split: obj.split)
  moreover have "subseq (yielded (ProductFilter_filter c P h)) C" if "h c = PyList C" for C
    using that filter_loop_subseq [of C P h]
    by (simp add: ProductFilter_filter_def yielded_def)
  ultimately show ?thesis
    by (auto elim: list_emb_set)
qed

theorem filter_frame_witness:
  "snd (ProductFilter_filter products large_spec demo_heap) = demo_heap
   \<and> demo_heap products = PyList [apple, tree, room]
   \<and> yielded (ProductFilter_filter products large_spec demo_heap) = [tree, room]
   \<and> subseq [tree, room] [apple, tree, room]"
  using filter_frame [of products large_spec demo_heap]
  by (simp add: demo_defs)

end
